theory Spec2Isabelle
  imports Main "HOL-Library.Sublist" "HOL-Library.Word"
begin

section \<open>Data model\<close>

text \<open>
  \<^verbatim>\<open>models.Resume\<close>, one row of the table \<^verbatim>\<open>resumes\<close>. The columns \<^verbatim>\<open>name\<close>,
  \<^verbatim>\<open>resumetype\<close> and \<^verbatim>\<open>occupation\<close> are nullable and receive the optional form fields
  of the upload; \<^verbatim>\<open>id\<close> and \<^verbatim>\<open>created_at\<close> are assigned by the database server.
  A Python \<^verbatim>\<open>str\<close> is a \<^typ>\<open>string\<close>, one \<^typ>\<open>char\<close> for each character.
\<close>

record Resume =
  resume_id :: int
  name :: "string option"
  resumetype :: "string option"
  occupation :: "string option"
  filename :: string
  chroma_id :: string
  snippet :: string
  created_at :: nat

text \<open>
  One entry of the Chroma collection, as \<^verbatim>\<open>col.add\<close> receives it: the identifier, the
  document, the embedding (of a type \<^typ>\<open>'v\<close> that the model leaves open) and the
  metadata dictionary, kept as the list of its items.
\<close>

record 'v entry =
  entry_id :: string
  document :: string
  embedding :: 'v
  metadata :: "(string \<times> string option) list"

text \<open>The two stores: the Chroma collection \<^verbatim>\<open>col\<close> and the table behind the session \<^verbatim>\<open>db\<close>.\<close>

record 'v world =
  col :: "'v entry list"
  db :: "Resume list"

type_synonym exn = string

section \<open>The ILIKE operator of the metadata store\<close>

text \<open>
  \<^verbatim>\<open>crud.query_resumes\<close> filters with \<^verbatim>\<open>Resume.name.ilike(f"%{name}%")\<close>. The argument is a
  LIKE pattern, and the log messages of \<^verbatim>\<open>main.py\<close> name the store as PostgreSQL. There
  \<^verbatim>\<open>%\<close> stands for any sequence of characters, \<^verbatim>\<open>_\<close> for any single character, and the
  backslash (the default escape character, no ESCAPE clause being given) makes the
  character after it stand for itself; a pattern that ends with the escape character
  is an error. ILIKE compares the lower-cased pattern with the lower-cased value, and
  on a NULL value it is not true.
\<close>

datatype like_tok = AnySeq | AnyOne | Lit char

fun like_tokens :: "string \<Rightarrow> like_tok list option" where
  "like_tokens [] = Some []"
| "like_tokens (c # cs) =
     (if c = CHR 0x5C then
        (case cs of
           [] \<Rightarrow> None
         | d # ds \<Rightarrow> map_option ((#) (Lit d)) (like_tokens ds))
      else if c = CHR ''%'' then map_option ((#) AnySeq) (like_tokens cs)
      else if c = CHR ''_'' then map_option ((#) AnyOne) (like_tokens cs)
      else map_option ((#) (Lit c)) (like_tokens cs))"

fun like_match :: "like_tok list \<Rightarrow> string \<Rightarrow> bool" where
  "like_match [] s = (s = [])"
| "like_match (AnySeq # ts) [] = like_match ts []"
| "like_match (AnySeq # ts) (d # s) = (like_match ts (d # s) \<or> like_match (AnySeq # ts) s)"
| "like_match (AnyOne # ts) [] = False"
| "like_match (AnyOne # ts) (d # s) = like_match ts s"
| "like_match (Lit c # ts) [] = False"
| "like_match (Lit c # ts) (d # s) = (c = d \<and> like_match ts s)"

text \<open>Case folding, on the letters \<^verbatim>\<open>A\<close> to \<^verbatim>\<open>Z\<close>.\<close>

definition lower_char :: "char \<Rightarrow> char" where
  "lower_char c =
     (let n = (of_char c :: nat) in if 65 \<le> n \<and> n \<le> 90 then char_of (n + 32) else c)"

definition lower :: "string \<Rightarrow> string" where
  "lower s = map lower_char s"

definition ilike :: "string option \<Rightarrow> string \<Rightarrow> exn + bool" where
  "ilike column pattern =
     (case like_tokens (lower pattern) of
        None \<Rightarrow> Inl ''LIKE pattern must not end with escape character''
      | Some ts \<Rightarrow>
          Inr (case column of None \<Rightarrow> False | Some s \<Rightarrow> like_match ts (lower s)))"

section \<open>crud.py\<close>

text \<open>
  A query is the list of its filters, each a column and a pattern; \<^verbatim>\<open>q.all()\<close> keeps, in
  table order, the rows on which every filter is true, and fails when a filter does.
\<close>

type_synonym criterion = "(Resume \<Rightarrow> string option) \<times> string"

fun where_clause :: "criterion list \<Rightarrow> Resume \<Rightarrow> exn + bool" where
  "where_clause [] r = Inr True"
| "where_clause ((column, pattern) # cs) r =
     (case ilike (column r) pattern of
        Inl e \<Rightarrow> Inl e
      | Inr b \<Rightarrow> (case where_clause cs r of Inl e \<Rightarrow> Inl e | Inr b' \<Rightarrow> Inr (b \<and> b')))"

fun query_all :: "criterion list \<Rightarrow> Resume list \<Rightarrow> exn + Resume list" where
  "query_all q [] = Inr []"
| "query_all q (r # rs) =
     (case where_clause q r of
        Inl e \<Rightarrow> Inl e
      | Inr b \<Rightarrow>
          (case query_all q rs of
             Inl e \<Rightarrow> Inl e
           | Inr out \<Rightarrow> Inr (if b then r # out else out)))"

text \<open>
  \<^verbatim>\<open>if value: q = q.filter(column.ilike(f"%{value}%"))\<close>: \<^verbatim>\<open>None\<close> and the empty string are
  the two falsy values of an optional string.
\<close>

definition add_filter ::
  "(Resume \<Rightarrow> string option) \<Rightarrow> string option \<Rightarrow> criterion list \<Rightarrow> criterion list" where
  "add_filter column v q =
     (case v of
        None \<Rightarrow> q
      | Some s \<Rightarrow> if s = [] then q else q @ [(column, ''%'' @ s @ ''%'')])"

definition query_resumes ::
  "Resume list \<Rightarrow> string option \<Rightarrow> string option \<Rightarrow> string option \<Rightarrow> exn + Resume list" where
  "query_resumes table nm rt oc =
     (let q = [];
          q = add_filter name nm q;
          q = add_filter resumetype rt q;
          q = add_filter occupation oc q
      in query_all q table)"

text \<open>
  \<^verbatim>\<open>create_resume\<close>: the row is built from the keyword arguments, the server assigns
  \<^verbatim>\<open>id\<close> and \<^verbatim>\<open>created_at\<close>, \<^verbatim>\<open>db.commit()\<close> stores the row or raises and stores
  nothing, and \<^verbatim>\<open>db.refresh(obj)\<close> reads the stored row back or raises. What the server
  assigns and whether a call raises are inputs, held in the environment below.
\<close>

datatype call =
  ExtractText string
| Encode string
| ColAdd string
| DbCommit string
| DbRefresh string

type_synonym event = "call \<times> bool"

record 'v env =
  extract_text :: "string \<Rightarrow> 8 word list \<Rightarrow> exn + string"
  encode :: "string \<Rightarrow> exn + 'v"
  uuid4 :: string
  col_add_raises :: "exn option"
  commit_raises :: "exn option"
  refresh_raises :: "exn option"
  next_id :: int
  now :: nat

record ('r, 'v) outcome =
  result :: "exn + 'r"
  world :: "'v world"
  calls :: "event list"

definition create_resume ::
  "'v env \<Rightarrow> 'v world \<Rightarrow> string option \<Rightarrow> string option \<Rightarrow> string option \<Rightarrow>
     string \<Rightarrow> string \<Rightarrow> string \<Rightarrow> (Resume, 'v) outcome" where
  "create_resume env w nm rt oc fname cid snip =
     (let obj = \<lparr>resume_id = next_id env, name = nm, resumetype = rt, occupation = oc,
                 filename = fname, chroma_id = cid, snippet = snip, created_at = now env\<rparr>
      in case commit_raises env of
           Some e \<Rightarrow> \<lparr>result = Inl e, world = w, calls = [(DbCommit cid, False)]\<rparr>
         | None \<Rightarrow>
             (let w' = w\<lparr>db := db w @ [obj]\<rparr>
              in case refresh_raises env of
                   Some e \<Rightarrow>
                     \<lparr>result = Inl e, world = w',
                      calls = [(DbCommit cid, True), (DbRefresh cid, False)]\<rparr>
                 | None \<Rightarrow>
                     \<lparr>result = Inr obj, world = w',
                      calls = [(DbCommit cid, True), (DbRefresh cid, True)]\<rparr>))"

section \<open>main.py\<close>

text \<open>
  \<^verbatim>\<open>col.add\<close> with one identifier, document, embedding and metadata dictionary: the
  entry is appended to the collection, or the call raises and the collection is as
  before.
\<close>

definition col_add :: "'v env \<Rightarrow> 'v world \<Rightarrow> 'v entry \<Rightarrow> exn + 'v world" where
  "col_add env w v =
     (case col_add_raises env of
        Some e \<Rightarrow> Inl e
      | None \<Rightarrow> Inr (w\<lparr>col := col w @ [v]\<rparr>))"

text \<open>
  \<^verbatim>\<open>ingest_resume\<close>. Every \<^verbatim>\<open>try\<close> block re-raises what it caught, so the first call
  that raises ends the request with that exception. \<^verbatim>\<open>calls\<close> lists, in order, the
  calls made to the extractor, the encoder and the two stores, each with \<^verbatim>\<open>True\<close>
  when it returned and \<^verbatim>\<open>False\<close> when it raised; \<^verbatim>\<open>text[:300]\<close> is \<^term>\<open>take 300 text\<close>.
\<close>

definition ingest_resume ::
  "'v env \<Rightarrow> string \<Rightarrow> 8 word list \<Rightarrow> string option \<Rightarrow> string option \<Rightarrow> string option \<Rightarrow>
     'v world \<Rightarrow> (Resume, 'v) outcome" where
  "ingest_resume env fname data nm rt oc w =
     (case extract_text env fname data of
        Inl e \<Rightarrow> \<lparr>result = Inl e, world = w, calls = [(ExtractText fname, False)]\<rparr>
      | Inr text \<Rightarrow>
          (case encode env text of
             Inl e \<Rightarrow>
               \<lparr>result = Inl e, world = w,
                calls = [(ExtractText fname, True), (Encode text, False)]\<rparr>
           | Inr emb \<Rightarrow>
               (let cid = uuid4 env;
                    v = \<lparr>entry_id = cid, document = text, embedding = emb,
                         metadata = [(''name'', nm), (''resumetype'', rt),
                                     (''occupation'', oc), (''filename'', Some fname)]\<rparr>
                in case col_add env w v of
                     Inl e \<Rightarrow>
                       \<lparr>result = Inl e, world = w,
                        calls = [(ExtractText fname, True), (Encode text, True),
                                 (ColAdd cid, False)]\<rparr>
                   | Inr w1 \<Rightarrow>
                       (let out = create_resume env w1 nm rt oc fname cid (take 300 text)
                        in out\<lparr>calls := [(ExtractText fname, True), (Encode text, True),
                                           (ColAdd cid, True)] @ calls out\<rparr>))))"

text \<open>
  \<^verbatim>\<open>search\<close>: with a truthy \<^verbatim>\<open>name\<close> the query has the name filter alone, and an empty
  result is returned as the empty list; otherwise the query has the other two filters.
  No statement of \<^verbatim>\<open>search\<close> or \<^verbatim>\<open>query_resumes\<close> writes to a store.
\<close>

definition truthy :: "string option \<Rightarrow> bool" where
  "truthy v = (case v of None \<Rightarrow> False | Some s \<Rightarrow> s \<noteq> [])"

definition search ::
  "string option \<Rightarrow> string option \<Rightarrow> string option \<Rightarrow> 'v world \<Rightarrow>
     (exn + Resume list) \<times> 'v world" where
  "search nm rt oc w =
     (if truthy nm then
        (case query_resumes (db w) nm None None of
           Inl e \<Rightarrow> (Inl e, w)
         | Inr res \<Rightarrow> if res = [] then (Inr [], w) else (Inr res, w))
      else (query_resumes (db w) None rt oc, w))"

text \<open>\<^verbatim>\<open>read_root\<close> returns the status dictionary and touches no store.\<close>

definition read_root :: "'v world \<Rightarrow> (string \<times> string) list \<times> 'v world" where
  "read_root w = ([(''status'', ''Backend running successfully'')], w)"

section \<open>Vocabulary of the specification\<close>

text \<open>
  The specification speaks of a case-insensitive substring match: the lower-cased
  filter occurs as a contiguous part of the lower-cased column value, and a NULL column
  has no part at all.
\<close>

definition ci_substring :: "string \<Rightarrow> string option \<Rightarrow> bool" where
  "ci_substring q v = (case v of None \<Rightarrow> False | Some s \<Rightarrow> sublist (lower q) (lower s))"

text \<open>
  A filter as the specification reads it: an absent or empty filter accepts every row,
  any other filter asks for the substring match.
\<close>

definition field_matches :: "string option \<Rightarrow> string option \<Rightarrow> bool" where
  "field_matches f v = (case f of None \<Rightarrow> True | Some s \<Rightarrow> s = [] \<or> ci_substring s v)"

text \<open>The characters that a LIKE pattern does not take literally.\<close>

definition metachar_free :: "string \<Rightarrow> bool" where
  "metachar_free s = list_all (\<lambda>c. c \<noteq> CHR ''%'' \<and> c \<noteq> CHR ''_'' \<and> c \<noteq> CHR 0x5C) s"

definition escape_free :: "string \<Rightarrow> bool" where
  "escape_free s = list_all (\<lambda>c. c \<noteq> CHR 0x5C) s"

definition plain_filter :: "string option \<Rightarrow> bool" where
  "plain_filter f = (case f of None \<Rightarrow> True | Some s \<Rightarrow> metachar_free s)"

text \<open>
  The pattern that \<^verbatim>\<open>query_resumes\<close> builds around a filter value, matched with
  \<^const>\<open>ilike\<close>; a filter as the code applies it; and the row condition of \<^verbatim>\<open>search\<close>.
\<close>

definition contains_match :: "string \<Rightarrow> string option \<Rightarrow> bool" where
  "contains_match s v = (ilike v (''%'' @ s @ ''%'') = Inr True)"

definition passes :: "string option \<Rightarrow> string option \<Rightarrow> bool" where
  "passes f v = (case f of None \<Rightarrow> True | Some s \<Rightarrow> s = [] \<or> contains_match s v)"

definition selected :: "string option \<Rightarrow> string option \<Rightarrow> string option \<Rightarrow> Resume \<Rightarrow> bool" where
  "selected nm rt oc r =
     (if truthy nm then passes nm (name r)
      else passes rt (resumetype r) \<and> passes oc (occupation r))"

text \<open>Auxiliary notions for the proofs about queries.\<close>

fun tok_of :: "char \<Rightarrow> like_tok" where
  "tok_of c = (if c = CHR ''%'' then AnySeq else if c = CHR ''_'' then AnyOne else Lit c)"

definition well_formed :: "criterion list \<Rightarrow> bool" where
  "well_formed q = list_all (\<lambda>(c, p). like_tokens (lower p) \<noteq> None) q"

definition satisfies :: "criterion list \<Rightarrow> Resume \<Rightarrow> bool" where
  "satisfies q r = list_all (\<lambda>(c, p). ilike (c r) p = Inr True) q"

section \<open>Example data\<close>

definition jane :: Resume where
  "jane = \<lparr>resume_id = 1, name = Some ''jane doe'', resumetype = Some ''Engineering'',
            occupation = Some ''Software Engineer'', filename = ''r1.txt'',
            chroma_id = ''c-1'', snippet = ''Jane Doe, Software Engineer'', created_at = 10\<rparr>"

definition bob :: Resume where
  "bob = \<lparr>resume_id = 2, name = Some ''Bob'', resumetype = Some ''Sales'',
           occupation = None, filename = ''r2.txt'',
           chroma_id = ''c-2'', snippet = ''Bob, Sales'', created_at = 20\<rparr>"

definition acdc :: Resume where
  "acdc = \<lparr>resume_id = 3, name = Some [CHR ''A'', CHR ''C'', CHR 0x5C, CHR ''D'', CHR ''C''],
            resumetype = None, occupation = Some ''Engineer'', filename = ''r3.txt'',
            chroma_id = ''c-3'', snippet = ''AC DC'', created_at = 30\<rparr>"

definition example_world :: "nat list world" where
  "example_world =
     \<lparr>col = [\<lparr>entry_id = ''c-1'', document = ''Jane Doe, Software Engineer'', embedding = [1, 2],
               metadata = [(''name'', Some ''jane doe''), (''resumetype'', Some ''Engineering''),
                           (''occupation'', Some ''Software Engineer''),
                           (''filename'', Some ''r1.txt'')]\<rparr>],
      db = [jane, bob, acdc]\<rparr>"

text \<open>
  The entry and the row that \<^verbatim>\<open>ingest_resume\<close> builds from its arguments, the extracted
  text and the embedding.
\<close>

definition entry_of ::
  "'v env \<Rightarrow> string \<Rightarrow> string option \<Rightarrow> string option \<Rightarrow> string option \<Rightarrow> string \<Rightarrow> 'v \<Rightarrow> 'v entry"
  where
  "entry_of env fname nm rt oc text emb =
     \<lparr>entry_id = uuid4 env, document = text, embedding = emb,
      metadata = [(''name'', nm), (''resumetype'', rt), (''occupation'', oc),
                  (''filename'', Some fname)]\<rparr>"

definition row_of ::
  "'v env \<Rightarrow> string \<Rightarrow> string option \<Rightarrow> string option \<Rightarrow> string option \<Rightarrow> string \<Rightarrow> Resume"
  where
  "row_of env fname nm rt oc text =
     \<lparr>resume_id = next_id env, name = nm, resumetype = rt, occupation = oc,
      filename = fname, chroma_id = uuid4 env, snippet = take 300 text,
      created_at = now env\<rparr>"

text \<open>
  An environment in which every call returns, and the row and the entry that ingesting
  \<^verbatim>\<open>r4.txt\<close> creates in it.
\<close>

definition example_env :: "nat list env" where
  "example_env =
     \<lparr>extract_text = (\<lambda>f d. if f = ''r4.txt'' then Inr ''Jane Smith, Sales Manager''
                              else Inl ''Unsupported file type''),
      encode = (\<lambda>t. Inr [length t]),
      uuid4 = ''c-4'',
      col_add_raises = None,
      commit_raises = None,
      refresh_raises = None,
      next_id = 4,
      now = 40\<rparr>"

definition smith :: Resume where
  "smith = \<lparr>resume_id = 4, name = Some ''Jane Smith'', resumetype = Some ''Sales'',
             occupation = None, filename = ''r4.txt'', chroma_id = ''c-4'',
             snippet = ''Jane Smith, Sales Manager'', created_at = 40\<rparr>"

definition smith_entry :: "nat list entry" where
  "smith_entry =
     \<lparr>entry_id = ''c-4'', document = ''Jane Smith, Sales Manager'', embedding = [25],
      metadata = [(''name'', Some ''Jane Smith''), (''resumetype'', Some ''Sales''),
                  (''occupation'', None), (''filename'', Some ''r4.txt'')]\<rparr>"

section \<open>Properties of the pattern matcher\<close>

lemma of_char_lower_char:
  "(of_char (lower_char c) :: nat) =
     (if 65 \<le> (of_char c :: nat) \<and> (of_char c :: nat) \<le> 90 then of_char c + 32 else of_char c)"
  by (simp add: lower_char_def Let_def)

lemma lower_char_percent [simp]: "lower_char c = CHR ''%'' \<longleftrightarrow> c = CHR ''%''"
proof
  assume "lower_char c = CHR ''%''"
  then have "(of_char (lower_char c) :: nat) = 37" by simp
  then have "(of_char c :: nat) = of_char (CHR ''%'')"
    by (simp add: of_char_lower_char split: if_splits)
  then show "c = CHR ''%''" by (simp only: of_char_eq_iff)
next
  assume "c = CHR ''%''" then show "lower_char c = CHR ''%''" by (simp add: lower_char_def)
qed

lemma lower_char_underscore [simp]: "lower_char c = CHR ''_'' \<longleftrightarrow> c = CHR ''_''"
proof
  assume "lower_char c = CHR ''_''"
  then have "(of_char (lower_char c) :: nat) = 95" by simp
  then have "(of_char c :: nat) = of_char (CHR ''_'')"
    by (simp add: of_char_lower_char split: if_splits)
  then show "c = CHR ''_''" by (simp only: of_char_eq_iff)
next
  assume "c = CHR ''_''" then show "lower_char c = CHR ''_''" by (simp add: lower_char_def)
qed

lemma lower_char_backslash [simp]: "lower_char c = CHR 0x5C \<longleftrightarrow> c = CHR 0x5C"
proof
  assume "lower_char c = CHR 0x5C"
  then have "(of_char (lower_char c) :: nat) = 92" by simp
  then have "(of_char c :: nat) = of_char (CHR 0x5C)"
    by (simp add: of_char_lower_char split: if_splits)
  then show "c = CHR 0x5C" by (simp only: of_char_eq_iff)
next
  assume "c = CHR 0x5C" then show "lower_char c = CHR 0x5C" by (simp add: lower_char_def)
qed

lemma lower_append [simp]: "lower (xs @ ys) = lower xs @ lower ys"
  by (simp add: lower_def)

lemma lower_Cons [simp]: "lower (c # cs) = lower_char c # lower cs"
  by (simp add: lower_def)

lemma lower_Nil [simp]: "lower [] = []"
  by (simp add: lower_def)

lemma lower_char_percent_val [simp]: "lower_char (CHR ''%'') = CHR ''%''"
  by (simp add: lower_char_def)

lemma metachar_free_lower [simp]: "metachar_free (lower s) = metachar_free s"
  by (induction s) (simp_all add: metachar_free_def)

lemma escape_free_lower [simp]: "escape_free (lower s) = escape_free s"
  by (induction s) (simp_all add: escape_free_def)

lemma like_tokens_snoc_percent: "\<exists>ts. like_tokens (s @ ''%'') = Some ts"
proof (induction s rule: like_tokens.induct)
  case 1
  show ?case by simp
next
  case (2 c cs)
  show ?case
  proof (cases "c = CHR 0x5C")
    case True
    show ?thesis
    proof (cases cs)
      case Nil
      with True show ?thesis by simp
    next
      case (Cons d ds)
      with True 2(1) obtain ts where "like_tokens (ds @ ''%'') = Some ts" by blast
      with True Cons show ?thesis by simp
    qed
  next
    case False
    with 2(2-4) obtain ts where "like_tokens (cs @ ''%'') = Some ts" by blast
    with False show ?thesis by simp
  qed
qed

lemma contains_pattern_tokens: "like_tokens (lower (''%'' @ s @ ''%'')) \<noteq> None"
proof -
  obtain ts where "like_tokens (lower s @ ''%'') = Some ts"
    using like_tokens_snoc_percent by blast
  then show ?thesis by simp
qed

lemma like_tokens_escape_free:
  "escape_free s \<Longrightarrow> like_tokens (s @ ''%'') = Some (map tok_of s @ [AnySeq])"
  by (induction s) (simp_all add: escape_free_def)

lemma map_tok_of_metachar_free: "metachar_free s \<Longrightarrow> map tok_of s = map Lit s"
  by (induction s) (simp_all add: metachar_free_def)

lemma metachar_free_escape_free: "metachar_free s \<Longrightarrow> escape_free s"
  by (induction s) (simp_all add: metachar_free_def escape_free_def)

lemma like_match_AnySeq_only [simp]: "like_match [AnySeq] t"
  by (induction t) simp_all

lemma like_match_AnySeq_skip: "like_match (AnySeq # ts) t \<Longrightarrow> like_match (AnySeq # ts) (p @ t)"
  by (induction p) simp_all

lemma like_match_AnySeq_here: "like_match ts t \<Longrightarrow> like_match (AnySeq # ts) t"
  by (cases t) simp_all

lemma like_match_AnySeq_iff:
  "like_match (AnySeq # ts) t \<longleftrightarrow> (\<exists>u. suffix u t \<and> like_match ts u)"
proof (induction t)
  case Nil
  show ?case by simp
next
  case (Cons d t)
  show ?case by (auto simp: Cons suffix_Cons)
qed

lemma like_match_own_text:
  "like_match ts t \<Longrightarrow> like_match (map tok_of s @ ts) (s @ t)"
proof (induction s)
  case Nil
  then show ?case by simp
next
  case (Cons c s)
  then show ?case by (simp add: like_match_AnySeq_here)
qed

lemma like_match_literals: "like_match (map Lit s @ [AnySeq]) t \<longleftrightarrow> prefix s t"
proof (induction s arbitrary: t)
  case Nil
  show ?case by simp
next
  case (Cons c s)
  show ?case by (cases t) (auto simp: Cons)
qed

lemma ilike_total: "like_tokens (lower p) \<noteq> None \<Longrightarrow> ilike v p = Inr (ilike v p = Inr True)"
  by (auto simp: ilike_def split: option.splits)

lemma ilike_contains: "ilike v (''%'' @ s @ ''%'') = Inr (contains_match s v)"
  unfolding contains_match_def by (rule ilike_total [OF contains_pattern_tokens])

lemma where_clause_well_formed: "well_formed q \<Longrightarrow> where_clause q r = Inr (satisfies q r)"
proof (induction q)
  case Nil
  show ?case by (simp add: satisfies_def)
next
  case (Cons cp q)
  obtain c p where cp: "cp = (c, p)" by (cases cp)
  from Cons.prems cp have p: "like_tokens (lower p) \<noteq> None" and q: "well_formed q"
    by (simp_all add: well_formed_def)
  have r: "where_clause q r = Inr (satisfies q r)" using Cons.IH q by simp
  obtain b where ib: "ilike (c r) p = Inr b" using ilike_total [OF p] by blast
  have "where_clause ((c, p) # q) r = Inr (b \<and> satisfies q r)"
    by (simp add: ib r)
  moreover have "satisfies ((c, p) # q) r = (b \<and> satisfies q r)"
    by (simp add: satisfies_def ib)
  ultimately show ?case by (simp add: cp)
qed

lemma query_all_well_formed: "well_formed q \<Longrightarrow> query_all q rows = Inr (filter (satisfies q) rows)"
  by (induction rows) (simp_all add: where_clause_well_formed)

lemma well_formed_add_filter: "well_formed q \<Longrightarrow> well_formed (add_filter c f q)"
  using contains_pattern_tokens
  by (simp add: well_formed_def add_filter_def split: option.splits)

lemma satisfies_add_filter:
  "satisfies (add_filter c f q) r \<longleftrightarrow> satisfies q r \<and> passes f (c r)"
  by (auto simp: satisfies_def add_filter_def passes_def contains_match_def split: option.splits)

lemma query_resumes_eq:
  "query_resumes table nm rt oc =
     Inr (filter (\<lambda>r. passes nm (name r) \<and> passes rt (resumetype r) \<and> passes oc (occupation r))
            table)"
proof -
  let ?q = "add_filter occupation oc (add_filter resumetype rt (add_filter name nm []))"
  have wf: "well_formed ?q"
    by (intro well_formed_add_filter) (simp add: well_formed_def)
  have sat: "satisfies ?q =
      (\<lambda>r. passes nm (name r) \<and> passes rt (resumetype r) \<and> passes oc (occupation r))"
    by (rule ext) (simp add: satisfies_add_filter, simp add: satisfies_def)
  show ?thesis
    unfolding query_resumes_def Let_def using query_all_well_formed [OF wf] sat by simp
qed

lemma passes_None [simp]: "passes None v" by (simp add: passes_def)

lemma passes_empty [simp]: "passes (Some []) v" by (simp add: passes_def)

lemma search_eq:
  "search nm rt oc w =
     (Inr (filter (\<lambda>r. if truthy nm then passes nm (name r)
                        else passes rt (resumetype r) \<and> passes oc (occupation r)) (db w)), w)"
  by (simp add: search_def query_resumes_eq)

lemma contains_match_escape_free:
  assumes "escape_free s" and "ci_substring s v"
  shows "contains_match s v"
proof -
  from assms(2) obtain t where v: "v = Some t" and sub: "sublist (lower s) (lower t)"
    by (auto simp: ci_substring_def split: option.splits)
  from sub obtain p u where t: "lower t = p @ lower s @ u" by (auto simp: sublist_def)
  have tk: "like_tokens (lower (''%'' @ s @ ''%'')) = Some (AnySeq # map tok_of (lower s) @ [AnySeq])"
    using like_tokens_escape_free [of "lower s"] assms(1) by simp
  have "like_match (map tok_of (lower s) @ [AnySeq]) (lower s @ u)"
    by (rule like_match_own_text) simp
  then have "like_match (AnySeq # map tok_of (lower s) @ [AnySeq]) (lower s @ u)"
    by (rule like_match_AnySeq_here)
  then have "like_match (AnySeq # map tok_of (lower s) @ [AnySeq]) (p @ lower s @ u)"
    by (rule like_match_AnySeq_skip)
  then show ?thesis using tk v t by (simp add: contains_match_def ilike_def)
qed

lemma contains_match_metachar_free:
  assumes "metachar_free s"
  shows "contains_match s v \<longleftrightarrow> ci_substring s v"
proof (cases v)
  case None
  then show ?thesis
    using contains_pattern_tokens [of s]
    by (auto simp: contains_match_def ci_substring_def ilike_def split: option.splits)
next
  case (Some t)
  have ef: "escape_free (lower s)" and mf: "metachar_free (lower s)"
    using assms metachar_free_escape_free by simp_all
  have tk: "like_tokens (lower (''%'' @ s @ ''%'')) = Some (AnySeq # map Lit (lower s) @ [AnySeq])"
    using like_tokens_escape_free [OF ef] map_tok_of_metachar_free [OF mf] by simp
  have "contains_match s v \<longleftrightarrow> like_match (AnySeq # map Lit (lower s) @ [AnySeq]) (lower t)"
    using tk Some by (simp add: contains_match_def ilike_def)
  also have "\<dots> \<longleftrightarrow> (\<exists>u. suffix u (lower t) \<and> prefix (lower s) u)"
    by (simp add: like_match_AnySeq_iff like_match_literals)
  also have "\<dots> \<longleftrightarrow> sublist (lower s) (lower t)"
    by (simp add: sublist_altdef')
  finally show ?thesis using Some by (simp add: ci_substring_def)
qed

section \<open>Properties of queries\<close>

lemma truthy_Some [simp]: "truthy (Some s) \<longleftrightarrow> s \<noteq> []"
  by (simp add: truthy_def)

lemma truthy_None [simp]: "\<not> truthy None"
  by (simp add: truthy_def)

lemma passes_Some: "s \<noteq> [] \<Longrightarrow> passes (Some s) v = contains_match s v"
  by (simp add: passes_def)

lemma passes_plain: "plain_filter f \<Longrightarrow> passes f v = field_matches f v"
  by (cases f) (simp_all add: passes_def field_matches_def plain_filter_def
      contains_match_metachar_free)

lemma search_selected: "search nm rt oc w = (Inr (filter (selected nm rt oc) (db w)), w)"
  unfolding selected_def by (rule search_eq)

section \<open>The runs of one ingestion\<close>

lemma ingest_cases [case_names extract_failed encode_failed add_failed commit_failed
    refresh_failed succeeded]:
  fixes env :: "'v env"
  obtains
    e where "extract_text env fname data = Inl e"
      "ingest_resume env fname data nm rt oc w =
         \<lparr>result = Inl e, world = w, calls = [(ExtractText fname, False)]\<rparr>"
  | doc e where "extract_text env fname data = Inr doc" "encode env doc = Inl e"
      "ingest_resume env fname data nm rt oc w =
         \<lparr>result = Inl e, world = w,
          calls = [(ExtractText fname, True), (Encode doc, False)]\<rparr>"
  | doc emb e where "extract_text env fname data = Inr doc" "encode env doc = Inr emb"
      "col_add_raises env = Some e"
      "ingest_resume env fname data nm rt oc w =
         \<lparr>result = Inl e, world = w,
          calls = [(ExtractText fname, True), (Encode doc, True),
                   (ColAdd (uuid4 env), False)]\<rparr>"
  | doc emb e where "extract_text env fname data = Inr doc" "encode env doc = Inr emb"
      "col_add_raises env = None" "commit_raises env = Some e"
      "ingest_resume env fname data nm rt oc w =
         \<lparr>result = Inl e,
          world = w\<lparr>col := col w @ [entry_of env fname nm rt oc doc emb]\<rparr>,
          calls = [(ExtractText fname, True), (Encode doc, True),
                   (ColAdd (uuid4 env), True), (DbCommit (uuid4 env), False)]\<rparr>"
  | doc emb e where "extract_text env fname data = Inr doc" "encode env doc = Inr emb"
      "col_add_raises env = None" "commit_raises env = None" "refresh_raises env = Some e"
      "ingest_resume env fname data nm rt oc w =
         \<lparr>result = Inl e,
          world = \<lparr>col = col w @ [entry_of env fname nm rt oc doc emb],
                   db = db w @ [row_of env fname nm rt oc doc]\<rparr>,
          calls = [(ExtractText fname, True), (Encode doc, True),
                   (ColAdd (uuid4 env), True), (DbCommit (uuid4 env), True),
                   (DbRefresh (uuid4 env), False)]\<rparr>"
  | doc emb where "extract_text env fname data = Inr doc" "encode env doc = Inr emb"
      "col_add_raises env = None" "commit_raises env = None" "refresh_raises env = None"
      "ingest_resume env fname data nm rt oc w =
         \<lparr>result = Inr (row_of env fname nm rt oc doc),
          world = \<lparr>col = col w @ [entry_of env fname nm rt oc doc emb],
                   db = db w @ [row_of env fname nm rt oc doc]\<rparr>,
          calls = [(ExtractText fname, True), (Encode doc, True),
                   (ColAdd (uuid4 env), True), (DbCommit (uuid4 env), True),
                   (DbRefresh (uuid4 env), True)]\<rparr>"
proof (cases "extract_text env fname data")
  case (Inl e)
  then show ?thesis using that(1) by (simp add: ingest_resume_def)
next
  case doc: (Inr doc)
  show ?thesis
  proof (cases "encode env doc")
    case (Inl e)
    then show ?thesis using that(2) doc by (simp add: ingest_resume_def)
  next
    case emb: (Inr emb)
    show ?thesis
    proof (cases "col_add_raises env")
      case (Some e)
      then show ?thesis
        using that(3) doc emb by (simp add: ingest_resume_def col_add_def Let_def)
    next
      case add: None
      show ?thesis
      proof (cases "commit_raises env")
        case (Some e)
        then show ?thesis
          using that(4) [OF doc emb add] doc emb add
          by (simp add: ingest_resume_def col_add_def create_resume_def Let_def entry_of_def)
      next
        case commit: None
        show ?thesis
        proof (cases "refresh_raises env")
          case (Some e)
          then show ?thesis
            using that(5) [OF doc emb add commit] doc emb add commit
            by (simp add: ingest_resume_def col_add_def create_resume_def Let_def
                entry_of_def row_of_def)
        next
          case None
          then show ?thesis
            using that(6) [OF doc emb add commit] doc emb add commit
            by (simp add: ingest_resume_def col_add_def create_resume_def Let_def
                entry_of_def row_of_def)
        qed
      qed
    qed
  qed
qed

lemma world_col_update: "w\<lparr>col := c\<rparr> = \<lparr>col = c, db = db w\<rparr>"
  by (cases w) simp

lemma example_ingest:
  "ingest_resume example_env ''r4.txt'' [] (Some ''Jane Smith'') (Some ''Sales'') None
     example_world =
   \<lparr>result = Inr smith,
    world = \<lparr>col = col example_world @ [smith_entry], db = db example_world @ [smith]\<rparr>,
    calls = [(ExtractText ''r4.txt'', True), (Encode ''Jane Smith, Sales Manager'', True),
             (ColAdd ''c-4'', True), (DbCommit ''c-4'', True), (DbRefresh ''c-4'', True)]\<rparr>"
  by (simp add: ingest_resume_def col_add_def create_resume_def example_env_def Let_def
      smith_def smith_entry_def)




section \<open>Search\<close>

text \<open>
  C1 (name-priority search). For every non-empty \<^verbatim>\<open>name\<close>, \<^verbatim>\<open>search(name, resumetype,
  occupation)\<close> returns what \<^verbatim>\<open>search(name, None, None)\<close> returns: the rows, in table
  order, whose name matches the ILIKE pattern \<^verbatim>\<open>%name%\<close>. When \<^verbatim>\<open>name\<close> contains none of
  the characters \<^verbatim>\<open>%\<close>, \<^verbatim>\<open>_\<close> and backslash, these are the rows of which \<^verbatim>\<open>name\<close> is a
  case-insensitive substring of the stored name.
\<close>

theorem search_name_priority:
  assumes "nm \<noteq> []"
  shows "search (Some nm) rt oc w = search (Some nm) None None w \<and>
         search (Some nm) rt oc w =
           (Inr (filter (\<lambda>r. contains_match nm (name r)) (db w)), w) \<and>
         (metachar_free nm \<longrightarrow>
            search (Some nm) rt oc w =
              (Inr (filter (\<lambda>r. ci_substring nm (name r)) (db w)), w))"
  using assms by (simp add: search_eq passes_Some contains_match_metachar_free)

text \<open>
  Searching for \<^verbatim>\<open>Jane\<close> with the filter \<^verbatim>\<open>resumetype = Sales\<close> returns the row of
  \<^verbatim>\<open>jane doe\<close>, whose type is \<^verbatim>\<open>Engineering\<close>.
\<close>

theorem search_name_priority_witness:
  "''Jane'' \<noteq> [] \<and> metachar_free ''Jane'' \<and>
   search (Some ''Jane'') (Some ''Sales'') None example_world =
     search (Some ''Jane'') None None example_world \<and>
   search (Some ''Jane'') (Some ''Sales'') None example_world = (Inr [jane], example_world)"
proof -
  have ne: "''Jane'' \<noteq> []" by simp
  have mf: "metachar_free ''Jane''" by code_simp
  have ev: "filter (\<lambda>r. ci_substring ''Jane'' (name r)) (db example_world) = [jane]"
    by code_simp
  note t = search_name_priority [OF ne, of "Some ''Sales''" None example_world]
  from t have a: "search (Some ''Jane'') (Some ''Sales'') None example_world =
      search (Some ''Jane'') None None example_world"
    by (rule conjunct1)
  from t mf have "search (Some ''Jane'') (Some ''Sales'') None example_world =
      (Inr (filter (\<lambda>r. ci_substring ''Jane'' (name r)) (db example_world)), example_world)"
    by blast
  then have c: "search (Some ''Jane'') (Some ''Sales'') None example_world =
      (Inr [jane], example_world)"
    by (simp only: ev)
  show ?thesis by (intro conjI ne mf a c)
qed

text \<open>
  The name \<^verbatim>\<open>_\<close> is a pattern for any single character: the search returns the row of
  \<^verbatim>\<open>Bob\<close>, whose name has no underscore in it.
\<close>

theorem search_name_substring_counterexample:
  "fst (search (Some ''_'') (Some ''Sales'') None example_world) = Inr [jane, bob, acdc] \<and>
   \<not> ci_substring ''_'' (name bob)"
  by code_simp

text \<open>
  C5 (search without a name). \<^verbatim>\<open>search(None, resumetype, occupation)\<close> returns, in table
  order, the rows that pass both filters, where an absent or empty filter passes every
  row and any other filter passes the rows whose column matches the ILIKE pattern
  \<^verbatim>\<open>%value%\<close>. When neither filter contains \<^verbatim>\<open>%\<close>, \<^verbatim>\<open>_\<close> or a backslash, these are the
  rows on which every given filter is a case-insensitive substring of its column. With
  both filters absent every row is returned.
\<close>

theorem search_flexible:
  "search None rt oc w =
     (Inr (filter (\<lambda>r. passes rt (resumetype r) \<and> passes oc (occupation r)) (db w)), w) \<and>
   (plain_filter rt \<and> plain_filter oc \<longrightarrow>
      search None rt oc w =
        (Inr (filter (\<lambda>r. field_matches rt (resumetype r) \<and> field_matches oc (occupation r))
                (db w)), w)) \<and>
   search None None None w = (Inr (db w), w)"
  by (simp add: search_eq passes_plain)

text \<open>
  The filters \<^verbatim>\<open>eng\<close> and \<^verbatim>\<open>ENG\<close> select the one row with type \<^verbatim>\<open>Engineering\<close> and
  occupation \<^verbatim>\<open>Software Engineer\<close>.
\<close>

theorem search_flexible_witness:
  "plain_filter (Some ''eng'') \<and> plain_filter (Some ''ENG'') \<and>
   search None (Some ''eng'') (Some ''ENG'') example_world = (Inr [jane], example_world)"
proof -
  have p1: "plain_filter (Some ''eng'')" and p2: "plain_filter (Some ''ENG'')"
    by code_simp+
  have ev: "filter (\<lambda>r. field_matches (Some ''eng'') (resumetype r) \<and>
                         field_matches (Some ''ENG'') (occupation r)) (db example_world) = [jane]"
    by code_simp
  have dbv: "db example_world = [jane, bob, acdc]" by (simp add: example_world_def)
  from search_flexible [of "Some ''eng''" "Some ''ENG''" example_world] p1 p2
  have "search None (Some ''eng'') (Some ''ENG'') example_world =
      (Inr (filter (\<lambda>r. field_matches (Some ''eng'') (resumetype r) \<and>
                         field_matches (Some ''ENG'') (occupation r)) (db example_world)),
       example_world)"
    by blast
  then have a: "search None (Some ''eng'') (Some ''ENG'') example_world =
      (Inr [jane], example_world)"
    by (simp only: ev)
  show ?thesis by (intro conjI p1 p2 a)
qed

text \<open>
  The filter \<^verbatim>\<open>resumetype = _\<close> returns the row with type \<^verbatim>\<open>Sales\<close>, which has no
  underscore in it.
\<close>

theorem search_flexible_substring_counterexample:
  "fst (search None (Some ''_'') None example_world) = Inr [jane, bob] \<and>
   \<not> ci_substring ''_'' (resumetype bob)"
  by code_simp

text \<open>
  C7 (no false negatives). When the non-empty query name contains no backslash, every
  stored row of whose name it is a case-insensitive substring is among the rows that
  \<^verbatim>\<open>search\<close> returns.
\<close>

theorem search_name_no_false_negative:
  assumes "nm \<noteq> []" and "escape_free nm" and "r \<in> set (db w)"
    and "ci_substring nm (name r)"
  shows "\<exists>rs. fst (search (Some nm) rt oc w) = Inr rs \<and> r \<in> set rs"
  using assms by (simp add: search_eq passes_Some contains_match_escape_free)

text \<open>Searching for \<^verbatim>\<open>Jane\<close> finds the row stored under the name \<^verbatim>\<open>jane doe\<close>.\<close>

theorem search_name_no_false_negative_witness:
  "''Jane'' \<noteq> [] \<and> escape_free ''Jane'' \<and> jane \<in> set (db example_world) \<and>
   name jane = Some ''jane doe'' \<and> ci_substring ''Jane'' (name jane) \<and>
   (\<exists>rs. fst (search (Some ''Jane'') None None example_world) = Inr rs \<and> jane \<in> set rs)"
proof -
  have ne: "''Jane'' \<noteq> []" by simp
  have ef: "escape_free ''Jane''" by code_simp
  have mem: "jane \<in> set (db example_world)" by (simp add: example_world_def)
  have nmj: "name jane = Some ''jane doe''" by (simp add: jane_def)
  have sub: "ci_substring ''Jane'' (name jane)" by code_simp
  show ?thesis
    using search_name_no_false_negative [OF ne ef mem sub, of None None] ne ef mem nmj sub
    by blast
qed

text \<open>
  A backslash in the query name escapes the character after it: the query made of
  \<^verbatim>\<open>c\<close>, a backslash and \<^verbatim>\<open>d\<close> asks for names that contain \<^verbatim>\<open>cd\<close>, and misses the
  stored name made of \<^verbatim>\<open>AC\<close>, a backslash and \<^verbatim>\<open>DC\<close>, of which it is a substring.
\<close>

theorem search_name_escape_counterexample:
  "acdc \<in> set (db example_world) \<and>
   ci_substring [CHR ''c'', CHR 0x5C, CHR ''d''] (name acdc) \<and>
   fst (search (Some [CHR ''c'', CHR 0x5C, CHR ''d'']) None None example_world) = Inr []"
  by code_simp

text \<open>
  C8 (no error on an empty result). For all arguments and every table, \<^verbatim>\<open>search\<close>
  returns a list, never an error: the pattern built around a filter value never ends
  with an unescaped escape character. When no row is selected, the list is empty.
\<close>

theorem search_never_fails:
  "fst (search nm rt oc w) = Inr (filter (selected nm rt oc) (db w)) \<and>
   ((\<forall>r \<in> set (db w). \<not> selected nm rt oc r) \<longrightarrow> fst (search nm rt oc w) = Inr [])"
  by (simp add: search_selected filter_empty_conv)

text \<open>Scenario D: no stored name contains \<^verbatim>\<open>NoSuchPerson\<close>, and the result is the empty list.\<close>

theorem search_never_fails_witness:
  "\<not> selected (Some ''NoSuchPerson'') None None jane \<and>
   \<not> selected (Some ''NoSuchPerson'') None None bob \<and>
   \<not> selected (Some ''NoSuchPerson'') None None acdc \<and>
   fst (search (Some ''NoSuchPerson'') None None example_world) = Inr []"
proof -
  have j: "\<not> selected (Some ''NoSuchPerson'') None None jane"
    and b: "\<not> selected (Some ''NoSuchPerson'') None None bob"
    and a: "\<not> selected (Some ''NoSuchPerson'') None None acdc"
    by code_simp+
  have no: "\<forall>r \<in> set (db example_world). \<not> selected (Some ''NoSuchPerson'') None None r"
    using j b a by (simp add: example_world_def)
  from search_never_fails [of "Some ''NoSuchPerson''" None None example_world] no
  have e: "fst (search (Some ''NoSuchPerson'') None None example_world) = Inr []"
    by blast
  show ?thesis by (intro conjI j b a e)
qed

text \<open>
  C10 (empty strings). An empty string in place of any argument of \<^verbatim>\<open>search\<close> gives the
  result of the absent argument: the empty name takes the branch without a name filter,
  an empty \<^verbatim>\<open>resumetype\<close> or \<^verbatim>\<open>occupation\<close> adds no filter, and three empty strings
  return every row.
\<close>

theorem search_empty_string_is_absent:
  "search (Some []) rt oc w = search None rt oc w \<and>
   search nm (Some []) oc w = search nm None oc w \<and>
   search nm rt (Some []) w = search nm rt None w \<and>
   search (Some []) rt oc w =
     (Inr (filter (\<lambda>r. passes rt (resumetype r) \<and> passes oc (occupation r)) (db w)), w) \<and>
   search (Some []) (Some []) (Some []) w = (Inr (db w), w)"
  by (simp add: search_eq)

text \<open>On the example table, three empty strings return the three rows.\<close>

theorem search_empty_string_is_absent_witness:
  "search (Some []) (Some []) (Some []) example_world = (Inr [jane, bob, acdc], example_world) \<and>
   search (Some []) (Some ''Sales'') None example_world =
     search None (Some ''Sales'') None example_world"
  using search_empty_string_is_absent [of "Some []" "Some []" example_world None]
    search_empty_string_is_absent [of "Some ''Sales''" None example_world None]
  by (simp add: example_world_def)

section \<open>Ingestion\<close>

text \<open>
  C2 (consistency on success). When \<^verbatim>\<open>ingest_resume\<close> returns a row, it has appended
  exactly one entry to the collection and exactly that row to the table, and the
  identifier of the entry and the \<^verbatim>\<open>chroma_id\<close> of the row are both the identifier
  generated in this request. When that identifier was in neither store before, the new
  entry and the new row are the only ones that carry it.
\<close>

theorem ingest_success_consistent:
  assumes "result (ingest_resume env fname data nm rt oc w) = Inr obj"
  shows "\<exists>v. col (world (ingest_resume env fname data nm rt oc w)) = col w @ [v] \<and>
             db (world (ingest_resume env fname data nm rt oc w)) = db w @ [obj] \<and>
             entry_id v = uuid4 env \<and> chroma_id obj = uuid4 env \<and>
             entry_id v = chroma_id obj \<and>
             (uuid4 env \<notin> entry_id ` set (col w) \<and> uuid4 env \<notin> chroma_id ` set (db w) \<longrightarrow>
                filter (\<lambda>x. entry_id x = chroma_id obj)
                  (col (world (ingest_resume env fname data nm rt oc w))) = [v] \<and>
                filter (\<lambda>r. chroma_id r = chroma_id obj)
                  (db (world (ingest_resume env fname data nm rt oc w))) = [obj])"
proof (cases rule: ingest_cases [of env fname data nm rt oc w])
  case (succeeded doc emb)
  from assms succeeded(6) have obj: "obj = row_of env fname nm rt oc doc" by simp
  have cid: "chroma_id obj = uuid4 env" by (simp add: obj row_of_def)
  have eid: "entry_id (entry_of env fname nm rt oc doc emb) = uuid4 env"
    by (simp add: entry_of_def)
  have f1: "filter (\<lambda>x. entry_id x = uuid4 env) (col w) = []"
    if "uuid4 env \<notin> entry_id ` set (col w)"
    using that by (force simp: filter_empty_conv)
  have f2: "filter (\<lambda>r. chroma_id r = uuid4 env) (db w) = []"
    if "uuid4 env \<notin> chroma_id ` set (db w)"
    using that by (force simp: filter_empty_conv)
  show ?thesis
    by (rule exI [of _ "entry_of env fname nm rt oc doc emb"])
      (simp add: succeeded(6) cid eid f1 f2 obj [symmetric])
qed (use assms in simp_all)

text \<open>Ingesting \<^verbatim>\<open>r4.txt\<close> into the example stores.\<close>

theorem ingest_success_consistent_witness:
  "result (ingest_resume example_env ''r4.txt'' [] (Some ''Jane Smith'') (Some ''Sales'') None
     example_world) = Inr smith \<and>
   uuid4 example_env \<notin> entry_id ` set (col example_world) \<and>
   uuid4 example_env \<notin> chroma_id ` set (db example_world) \<and>
   (\<exists>v. col (world (ingest_resume example_env ''r4.txt'' [] (Some ''Jane Smith'')
              (Some ''Sales'') None example_world)) = col example_world @ [v] \<and>
        db (world (ingest_resume example_env ''r4.txt'' [] (Some ''Jane Smith'')
              (Some ''Sales'') None example_world)) = db example_world @ [smith] \<and>
        entry_id v = chroma_id smith \<and>
        filter (\<lambda>x. entry_id x = chroma_id smith)
          (col (world (ingest_resume example_env ''r4.txt'' [] (Some ''Jane Smith'')
              (Some ''Sales'') None example_world))) = [v] \<and>
        filter (\<lambda>r. chroma_id r = chroma_id smith)
          (db (world (ingest_resume example_env ''r4.txt'' [] (Some ''Jane Smith'')
              (Some ''Sales'') None example_world))) = [smith])"
proof -
  have r: "result (ingest_resume example_env ''r4.txt'' [] (Some ''Jane Smith'') (Some ''Sales'')
      None example_world) = Inr smith"
    by (simp add: example_ingest)
  have f1: "uuid4 example_env \<notin> entry_id ` set (col example_world)"
    by (simp add: example_env_def example_world_def)
  have f2: "uuid4 example_env \<notin> chroma_id ` set (db example_world)"
    by (simp add: example_env_def example_world_def jane_def bob_def acdc_def)
  from ingest_success_consistent [OF r] r f1 f2 show ?thesis by blast
qed






text \<open>
  C6 (failure aborts, nothing is undone). Whichever call raises first, \<^verbatim>\<open>ingest_resume\<close>
  ends with that exception and makes no further call. A failed extraction, encoding or
  \<^verbatim>\<open>col.add\<close> leaves both stores as they were; a failed commit leaves the new entry in
  the collection and the table as it was; a failed \<^verbatim>\<open>db.refresh\<close> leaves the new entry
  and the new row.
\<close>

theorem ingest_failure_aborts:
  "(extract_text env fname data = Inl e \<longrightarrow>
      ingest_resume env fname data nm rt oc w =
        \<lparr>result = Inl e, world = w, calls = [(ExtractText fname, False)]\<rparr>) \<and>
   (extract_text env fname data = Inr doc \<and> encode env doc = Inl e \<longrightarrow>
      ingest_resume env fname data nm rt oc w =
        \<lparr>result = Inl e, world = w,
         calls = [(ExtractText fname, True), (Encode doc, False)]\<rparr>) \<and>
   (extract_text env fname data = Inr doc \<and> encode env doc = Inr emb \<and>
    col_add_raises env = Some e \<longrightarrow>
      ingest_resume env fname data nm rt oc w =
        \<lparr>result = Inl e, world = w,
         calls = [(ExtractText fname, True), (Encode doc, True),
                  (ColAdd (uuid4 env), False)]\<rparr>) \<and>
   (extract_text env fname data = Inr doc \<and> encode env doc = Inr emb \<and>
    col_add_raises env = None \<and> commit_raises env = Some e \<longrightarrow>
      ingest_resume env fname data nm rt oc w =
        \<lparr>result = Inl e,
         world = \<lparr>col = col w @ [entry_of env fname nm rt oc doc emb], db = db w\<rparr>,
         calls = [(ExtractText fname, True), (Encode doc, True),
                  (ColAdd (uuid4 env), True), (DbCommit (uuid4 env), False)]\<rparr>) \<and>
   (extract_text env fname data = Inr doc \<and> encode env doc = Inr emb \<and>
    col_add_raises env = None \<and> commit_raises env = None \<and> refresh_raises env = Some e \<longrightarrow>
      ingest_resume env fname data nm rt oc w =
        \<lparr>result = Inl e,
         world = \<lparr>col = col w @ [entry_of env fname nm rt oc doc emb],
                  db = db w @ [row_of env fname nm rt oc doc]\<rparr>,
         calls = [(ExtractText fname, True), (Encode doc, True),
                  (ColAdd (uuid4 env), True), (DbCommit (uuid4 env), True),
                  (DbRefresh (uuid4 env), False)]\<rparr>)"
  by (cases rule: ingest_cases [of env fname data nm rt oc w]) (auto simp: world_col_update)

text \<open>Scenario E: the extractor rejects \<^verbatim>\<open>photo.png\<close>, and neither store is written.\<close>

theorem ingest_failure_aborts_witness:
  "extract_text example_env ''photo.png'' [] = Inl ''Unsupported file type'' \<and>
   ingest_resume example_env ''photo.png'' [] (Some ''Jane Smith'') None None example_world =
     \<lparr>result = Inl ''Unsupported file type'', world = example_world,
      calls = [(ExtractText ''photo.png'', False)]\<rparr> \<and>
   result (ingest_resume (example_env\<lparr>encode := (\<lambda>t. Inl ''model not loaded'')\<rparr>) ''r4.txt''
     [] (Some ''Jane Smith'') (Some ''Sales'') None example_world) = Inl ''model not loaded'' \<and>
   world (ingest_resume (example_env\<lparr>encode := (\<lambda>t. Inl ''model not loaded'')\<rparr>) ''r4.txt''
     [] (Some ''Jane Smith'') (Some ''Sales'') None example_world) = example_world \<and>
   result (ingest_resume (example_env\<lparr>col_add_raises := Some ''index unavailable''\<rparr>)
     ''r4.txt'' [] (Some ''Jane Smith'') (Some ''Sales'') None example_world) =
     Inl ''index unavailable'' \<and>
   world (ingest_resume (example_env\<lparr>col_add_raises := Some ''index unavailable''\<rparr>)
     ''r4.txt'' [] (Some ''Jane Smith'') (Some ''Sales'') None example_world) = example_world \<and>
   result (ingest_resume (example_env\<lparr>commit_raises := Some ''connection lost''\<rparr>)
     ''r4.txt'' [] (Some ''Jane Smith'') (Some ''Sales'') None example_world) =
     Inl ''connection lost'' \<and>
   db (world (ingest_resume (example_env\<lparr>commit_raises := Some ''connection lost''\<rparr>)
     ''r4.txt'' [] (Some ''Jane Smith'') (Some ''Sales'') None example_world)) =
     db example_world \<and>
   result (ingest_resume (example_env\<lparr>refresh_raises := Some ''connection lost''\<rparr>)
     ''r4.txt'' [] (Some ''Jane Smith'') (Some ''Sales'') None example_world) =
     Inl ''connection lost'' \<and>
   db (world (ingest_resume (example_env\<lparr>refresh_raises := Some ''connection lost''\<rparr>)
     ''r4.txt'' [] (Some ''Jane Smith'') (Some ''Sales'') None example_world)) =
     db example_world @ [smith]"
proof -
  let ?doc = "''Jane Smith, Sales Manager''"
  let ?enc = "example_env\<lparr>encode := (\<lambda>t. Inl ''model not loaded'')\<rparr>"
  let ?add = "example_env\<lparr>col_add_raises := Some ''index unavailable''\<rparr>"
  let ?com = "example_env\<lparr>commit_raises := Some ''connection lost''\<rparr>"
  let ?ref = "example_env\<lparr>refresh_raises := Some ''connection lost''\<rparr>"
  have x: "extract_text example_env ''photo.png'' [] = Inl ''Unsupported file type''"
    by (simp add: example_env_def)
  from ingest_failure_aborts [of example_env "''photo.png''" "[]" "''Unsupported file type''"
      "Some ''Jane Smith''" None None example_world] x
  have a: "ingest_resume example_env ''photo.png'' [] (Some ''Jane Smith'') None None
      example_world =
     \<lparr>result = Inl ''Unsupported file type'', world = example_world,
      calls = [(ExtractText ''photo.png'', False)]\<rparr>"
    by blast
  have h2: "extract_text ?enc ''r4.txt'' [] = Inr ?doc \<and> encode ?enc ?doc = Inl ''model not loaded''"
    by (simp add: example_env_def)
  from ingest_failure_aborts [of ?enc "''r4.txt''" "[]" "''model not loaded''"
      "Some ''Jane Smith''" "Some ''Sales''" None example_world ?doc] h2
  have b: "ingest_resume ?enc ''r4.txt'' [] (Some ''Jane Smith'') (Some ''Sales'') None
      example_world =
     \<lparr>result = Inl ''model not loaded'', world = example_world,
      calls = [(ExtractText ''r4.txt'', True), (Encode ?doc, False)]\<rparr>"
    by blast
  have h3: "extract_text ?add ''r4.txt'' [] = Inr ?doc \<and> encode ?add ?doc = Inr [25] \<and>
      col_add_raises ?add = Some ''index unavailable''"
    by (simp add: example_env_def)
  from ingest_failure_aborts [of ?add "''r4.txt''" "[]" "''index unavailable''"
      "Some ''Jane Smith''" "Some ''Sales''" None example_world ?doc "[25]"] h3
  have c: "ingest_resume ?add ''r4.txt'' [] (Some ''Jane Smith'') (Some ''Sales'') None
      example_world =
     \<lparr>result = Inl ''index unavailable'', world = example_world,
      calls = [(ExtractText ''r4.txt'', True), (Encode ?doc, True),
               (ColAdd (uuid4 ?add), False)]\<rparr>"
    by blast
  have h4: "extract_text ?com ''r4.txt'' [] = Inr ?doc \<and> encode ?com ?doc = Inr [25] \<and>
      col_add_raises ?com = None \<and> commit_raises ?com = Some ''connection lost''"
    by (simp add: example_env_def)
  from ingest_failure_aborts [of ?com "''r4.txt''" "[]" "''connection lost''"
      "Some ''Jane Smith''" "Some ''Sales''" None example_world ?doc "[25]"] h4
  have d: "ingest_resume ?com ''r4.txt'' [] (Some ''Jane Smith'') (Some ''Sales'') None
      example_world =
     \<lparr>result = Inl ''connection lost'',
      world = \<lparr>col = col example_world @
                 [entry_of ?com ''r4.txt'' (Some ''Jane Smith'') (Some ''Sales'') None ?doc [25]],
               db = db example_world\<rparr>,
      calls = [(ExtractText ''r4.txt'', True), (Encode ?doc, True),
               (ColAdd (uuid4 ?com), True), (DbCommit (uuid4 ?com), False)]\<rparr>"
    by blast
  have h5: "extract_text ?ref ''r4.txt'' [] = Inr ?doc \<and> encode ?ref ?doc = Inr [25] \<and>
      col_add_raises ?ref = None \<and> commit_raises ?ref = None \<and>
      refresh_raises ?ref = Some ''connection lost''"
    by (simp add: example_env_def)
  from ingest_failure_aborts [of ?ref "''r4.txt''" "[]" "''connection lost''"
      "Some ''Jane Smith''" "Some ''Sales''" None example_world ?doc "[25]"] h5
  have e: "ingest_resume ?ref ''r4.txt'' [] (Some ''Jane Smith'') (Some ''Sales'') None
      example_world =
     \<lparr>result = Inl ''connection lost'',
      world = \<lparr>col = col example_world @
                 [entry_of ?ref ''r4.txt'' (Some ''Jane Smith'') (Some ''Sales'') None ?doc [25]],
               db = db example_world @
                 [row_of ?ref ''r4.txt'' (Some ''Jane Smith'') (Some ''Sales'') None ?doc]\<rparr>,
      calls = [(ExtractText ''r4.txt'', True), (Encode ?doc, True),
               (ColAdd (uuid4 ?ref), True), (DbCommit (uuid4 ?ref), True),
               (DbRefresh (uuid4 ?ref), False)]\<rparr>"
    by blast
  have row: "row_of ?ref ''r4.txt'' (Some ''Jane Smith'') (Some ''Sales'') None ?doc = smith"
    by (simp add: row_of_def example_env_def smith_def)
  show ?thesis
    by (intro conjI x a) (simp_all add: b c d e row)
qed

section \<open>Frame\<close>

text \<open>
  C9 (no update, no delete). \<^verbatim>\<open>read_root\<close> and \<^verbatim>\<open>search\<close> leave both stores as they
  are; \<^verbatim>\<open>ingest_resume\<close> leaves every stored entry and row in place and appends at most
  one entry and at most one row.
\<close>

theorem stores_append_only:
  "snd (read_root w) = w \<and> snd (search nm rt oc w) = w \<and>
   (\<exists>vs rs. col (world (ingest_resume env fname data nm rt oc w)) = col w @ vs \<and>
            db (world (ingest_resume env fname data nm rt oc w)) = db w @ rs \<and>
            length vs \<le> 1 \<and> length rs \<le> length vs)"
proof (intro conjI)
  show "snd (read_root w) = w" by (simp add: read_root_def)
  show "snd (search nm rt oc w) = w" by (simp add: search_eq)
  show "\<exists>vs rs. col (world (ingest_resume env fname data nm rt oc w)) = col w @ vs \<and>
            db (world (ingest_resume env fname data nm rt oc w)) = db w @ rs \<and>
            length vs \<le> 1 \<and> length rs \<le> length vs"
  proof (cases rule: ingest_cases [of env fname data nm rt oc w])
    case (extract_failed e)
    show ?thesis by (rule exI [of _ "[]"], rule exI [of _ "[]"]) (simp add: extract_failed(2))
  next
    case (encode_failed doc e)
    show ?thesis by (rule exI [of _ "[]"], rule exI [of _ "[]"]) (simp add: encode_failed(3))
  next
    case (add_failed doc emb e)
    show ?thesis by (rule exI [of _ "[]"], rule exI [of _ "[]"]) (simp add: add_failed(4))
  next
    case (commit_failed doc emb e)
    show ?thesis
      by (rule exI [of _ "[entry_of env fname nm rt oc doc emb]"], rule exI [of _ "[]"])
        (simp add: commit_failed(5))
  next
    case (refresh_failed doc emb e)
    show ?thesis
      by (rule exI [of _ "[entry_of env fname nm rt oc doc emb]"],
          rule exI [of _ "[row_of env fname nm rt oc doc]"])
        (simp add: refresh_failed(6))
  next
    case (succeeded doc emb)
    show ?thesis
      by (rule exI [of _ "[entry_of env fname nm rt oc doc emb]"],
          rule exI [of _ "[row_of env fname nm rt oc doc]"])
        (simp add: succeeded(6))
  qed
qed

text \<open>A search and an ingestion on the example stores.\<close>

theorem stores_append_only_witness:
  "snd (search (Some ''Jane'') None None example_world) = example_world \<and>
   col (world (ingest_resume example_env ''r4.txt'' [] (Some ''Jane Smith'') (Some ''Sales'') None
     example_world)) = col example_world @ [smith_entry] \<and>
   db (world (ingest_resume example_env ''r4.txt'' [] (Some ''Jane Smith'') (Some ''Sales'') None
     example_world)) = db example_world @ [smith]"
proof -
  from stores_append_only [of example_world "Some ''Jane''" None None]
  have a: "snd (search (Some ''Jane'') None None example_world) = example_world" by blast
  show ?thesis using a by (simp add: example_ingest)
qed

end
